theory Spec2Isabelle
  imports Complex_Main "HOL-Library.Sublist"
begin

section \<open>Data model of the image converter\<close>

text \<open>
  The service \<^verbatim>\<open>src/lib/services/ImageConverter.ts\<close> and the handler \<^verbatim>\<open>handleFiles\<close> of
  \<^verbatim>\<open>src/lib/components/ImageConverter.svelte\<close> are embedded as functions that pass the
  browser's state explicitly. JavaScript strings are modelled as \<open>string\<close>; a thrown
  \<^verbatim>\<open>Error\<close> (a rejected promise) is the \<open>Inl\<close> branch of a sum.
\<close>

datatype ImageFormat = Png | Jpg | Jpeg | Webp

text \<open>The string a value of \<^verbatim>\<open>ImageFormat\<close> is at run time (\<^verbatim>\<open>'png' | 'jpg' | 'jpeg' | 'webp'\<close>).\<close>

fun format_string :: "ImageFormat \<Rightarrow> string" where
  "format_string Png = ''png''"
| "format_string Jpg = ''jpg''"
| "format_string Jpeg = ''jpeg''"
| "format_string Webp = ''webp''"

record Blob =
  blob_bytes :: "nat list"
  blob_type :: string

text \<open>A \<^verbatim>\<open>File\<close>: \<^verbatim>\<open>file.size\<close> is the number of its bytes.\<close>

record File =
  name :: string
  type' :: string
  bytes :: "nat list"

definition size' :: "File \<Rightarrow> nat" where
  "size' file = length (bytes file)"

definition blob_size :: "Blob \<Rightarrow> nat" where
  "blob_size blob = length (blob_bytes blob)"

text \<open>
  A value that a property lookup on an object can produce: a string, a function (by its
  name), another object (by its name) or \<^verbatim>\<open>undefined\<close>.
\<close>

datatype js_value = Str string | Fun string | Obj string | Undefined

text \<open>
  \<^verbatim>\<open>sourceFormat\<close> is declared a string; what \<^verbatim>\<open>createConvertedFileRecord\<close> stores in it is the
  value of an \<^verbatim>\<open>||\<close> chain over a property lookup, which need not be one.
\<close>

record ConvertedFile =
  id' :: string
  originalFile :: File
  originalUrl :: string
  convertedUrl :: string
  filename :: string
  isConverting :: bool
  sourceFormat :: js_value
  targetFormat :: ImageFormat
  originalSize :: nat
  convertedSize :: nat

record HTMLImageElement =
  img_src :: string
  img_width :: nat
  img_height :: nat

datatype draw_op =
    FillRect string nat nat nat nat
  | DrawImage HTMLImageElement nat nat

text \<open>
  A canvas with its 2D context: the operations drawn on it so far, in order.
  \<open>FillRect style x y w h\<close> records the fill style in force when the rectangle was filled.
\<close>

record HTMLCanvasElement =
  canvas_width :: nat
  canvas_height :: nat
  fillStyle :: string
  drawn :: "draw_op list"

record HTMLAnchorElement =
  href :: string
  download :: string

datatype error = Error string

text \<open>
  A line of the console: its level and its message. The numbers interpolated into a message
  and the object logged after it are left out, and with them \<^verbatim>\<open>formatFileSize\<close>, which only
  formats sizes for these objects and cannot throw.
\<close>

datatype console_entry = ConsoleLog string | ConsoleWarn string | ConsoleError string

subsection \<open>The browser\<close>

text \<open>
  What the platform answers is a parameter of the model: the token of the \<open>n\<close>-th object
  URL, the \<open>n\<close>-th result of \<^verbatim>\<open>Math.random().toString(36)\<close>, the outcome of reading a file as
  text (\<open>None\<close>: \<^verbatim>\<open>reader.onerror\<close>), of decoding a blob assigned to \<^verbatim>\<open>img.src\<close> (\<open>None\<close>:
  \<^verbatim>\<open>img.onerror\<close>; otherwise the width and height), of \<^verbatim>\<open>canvas.getContext('2d')\<close>
  (\<open>False\<close>: \<^verbatim>\<open>null\<close>), of \<^verbatim>\<open>canvas.toBlob\<close> (\<open>None\<close>: the callback receives \<^verbatim>\<open>null\<close>), and of
  \<^verbatim>\<open>fetch(url)\<close> followed by \<^verbatim>\<open>response.blob()\<close> (\<open>Inl\<close>: either promise rejects).
\<close>

record Platform =
  uuid :: "nat \<Rightarrow> string"
  random_base36 :: "nat \<Rightarrow> string"
  readAsText :: "File \<Rightarrow> string option"
  decode :: "Blob \<Rightarrow> (nat \<times> nat) option"
  getContext2d :: bool
  toBlob :: "HTMLCanvasElement \<Rightarrow> string \<Rightarrow> rat \<Rightarrow> Blob option"
  fetch_blob :: "string \<Rightarrow> error + Blob"

text \<open>
  The state the code changes: the object URLs that are allocated and not revoked, the
  number of object URLs created and of random numbers drawn so far, the console, the
  children of \<^verbatim>\<open>document.body\<close> (\<open>None\<close>: there is no body, and \<^verbatim>\<open>document.body.appendChild\<close>
  throws a \<^verbatim>\<open>TypeError\<close>), and the anchors that were clicked.
\<close>

record Browser =
  urls :: "string list"
  minted :: nat
  rolls :: nat
  console :: "console_entry list"
  body :: "HTMLAnchorElement list option"
  clicked :: "HTMLAnchorElement list"

definition createObjectURL :: "Platform \<Rightarrow> Browser \<Rightarrow> string \<times> Browser" where
  "createObjectURL pf st =
     (let u = ''blob:'' @ uuid pf (minted st)
      in (u, st\<lparr>urls := urls st @ [u], minted := Suc (minted st)\<rparr>))"

definition revokeObjectURL :: "string \<Rightarrow> Browser \<Rightarrow> Browser" where
  "revokeObjectURL u st = st\<lparr>urls := removeAll u (urls st)\<rparr>"

definition console_log :: "string \<Rightarrow> Browser \<Rightarrow> Browser" where
  "console_log msg st = st\<lparr>console := console st @ [ConsoleLog msg]\<rparr>"

definition console_warn :: "string \<Rightarrow> Browser \<Rightarrow> Browser" where
  "console_warn msg st = st\<lparr>console := console st @ [ConsoleWarn msg]\<rparr>"

definition console_error :: "string \<Rightarrow> Browser \<Rightarrow> Browser" where
  "console_error msg st = st\<lparr>console := console st @ [ConsoleError msg]\<rparr>"

subsection \<open>JavaScript string operations\<close>

text \<open>\<^verbatim>\<open>s.split(sep)\<close> for a one-character separator: never empty, \<^verbatim>\<open>''.split('.')\<close> is \<^verbatim>\<open>['']\<close>.\<close>

fun split :: "char \<Rightarrow> string \<Rightarrow> string list" where
  "split sep [] = [[]]"
| "split sep (c # cs) =
     (if c = sep then [] # split sep cs
      else (case split sep cs of [] \<Rightarrow> [[c]] | s # ss \<Rightarrow> (c # s) # ss))"

text \<open>\<^verbatim>\<open>array.pop()\<close>: the last element, \<^verbatim>\<open>undefined\<close> (\<open>None\<close>) on an empty array.\<close>

definition pop :: "'a list \<Rightarrow> 'a option" where
  "pop xs = (if xs = [] then None else Some (last xs))"

text \<open>
  \<^verbatim>\<open>toLowerCase\<close> on the letters A to Z. The other characters of a \<open>string\<close> are left as
  they are; no character outside A to Z is mapped by JavaScript to a string of the
  allow-list's letters.
\<close>

definition toLowerCase_char :: "char \<Rightarrow> char" where
  "toLowerCase_char c =
     (case map_of (zip ''ABCDEFGHIJKLMNOPQRSTUVWXYZ'' ''abcdefghijklmnopqrstuvwxyz'') c of
        None \<Rightarrow> c | Some d \<Rightarrow> d)"

definition toLowerCase :: "string \<Rightarrow> string" where
  "toLowerCase s = map toLowerCase_char s"

text \<open>\<^verbatim>\<open>a || d\<close> for a string or \<^verbatim>\<open>undefined\<close> \<open>a\<close>: the empty string and \<^verbatim>\<open>undefined\<close> are falsy.\<close>

definition or_else :: "string option \<Rightarrow> string \<Rightarrow> string" where
  "or_else a d = (case a of None \<Rightarrow> d | Some s \<Rightarrow> if s = [] then d else s)"

text \<open>
  \<^verbatim>\<open>a || b\<close> on values: the empty string and \<^verbatim>\<open>undefined\<close> are falsy, every other string and
  every function and object is truthy.
\<close>

fun truthy :: "js_value \<Rightarrow> bool" where
  "truthy (Str s) = (s \<noteq> [])"
| "truthy (Fun f) = True"
| "truthy (Obj ob) = True"
| "truthy Undefined = False"

definition js_or :: "js_value \<Rightarrow> js_value \<Rightarrow> js_value" where
  "js_or a b = (if truthy a then a else b)"

text \<open>A string or \<^verbatim>\<open>undefined\<close> as a value.\<close>

fun of_optional :: "string option \<Rightarrow> js_value" where
  "of_optional None = Undefined"
| "of_optional (Some s) = Str s"

text \<open>
  The properties every object literal inherits from \<^verbatim>\<open>Object.prototype\<close>: eleven functions
  and the accessor \<^verbatim>\<open>__proto__\<close>, which yields \<^verbatim>\<open>Object.prototype\<close> itself.
\<close>

definition OBJECT_PROTOTYPE :: "(string \<times> js_value) list" where
  "OBJECT_PROTOTYPE =
     [(''constructor'', Fun ''Object''),
      (''__defineGetter__'', Fun ''__defineGetter__''),
      (''__defineSetter__'', Fun ''__defineSetter__''),
      (''hasOwnProperty'', Fun ''hasOwnProperty''),
      (''__lookupGetter__'', Fun ''__lookupGetter__''),
      (''__lookupSetter__'', Fun ''__lookupSetter__''),
      (''isPrototypeOf'', Fun ''isPrototypeOf''),
      (''propertyIsEnumerable'', Fun ''propertyIsEnumerable''),
      (''toString'', Fun ''toString''),
      (''valueOf'', Fun ''valueOf''),
      (''__proto__'', Obj ''Object.prototype''),
      (''toLocaleString'', Fun ''toLocaleString'')]"

text \<open>
  \<^verbatim>\<open>table[key]\<close> on an object literal with string values: the own property if there is one,
  otherwise the inherited one, otherwise \<^verbatim>\<open>undefined\<close>.
\<close>

definition get_property :: "(string \<times> string) list \<Rightarrow> string \<Rightarrow> js_value" where
  "get_property table key =
     (case map_of table key of
        Some v \<Rightarrow> Str v
      | None \<Rightarrow> (case map_of OBJECT_PROTOTYPE key of Some v \<Rightarrow> v | None \<Rightarrow> Undefined))"

text \<open>\<^verbatim>\<open>file.name.split('.').pop()?.toLowerCase()\<close>\<close>

definition name_ext :: "File \<Rightarrow> string option" where
  "name_ext file = map_option toLowerCase (pop (split (CHR ''.'') (name file)))"

text \<open>
  \<^verbatim>\<open>s.replace(/\.[^.]+$/, '')\<close>: the leftmost position where the pattern matches is a dot
  followed by one or more characters other than a dot up to the end of the string; the
  match, which reaches the end, is replaced by the empty string.
\<close>

fun replace_ext :: "string \<Rightarrow> string" where
  "replace_ext [] = []"
| "replace_ext (c # cs) =
     (if c = CHR ''.'' \<and> cs \<noteq> [] \<and> CHR ''.'' \<notin> set cs then [] else c # replace_ext cs)"

section \<open>The service\<close>

definition SUPPORTED_INPUT_FORMATS :: "string list" where
  "SUPPORTED_INPUT_FORMATS =
     [''image/png'', ''image/jpeg'', ''image/jpg'', ''image/webp'', ''image/gif'',
      ''image/svg+xml'', ''image/x-icon'', ''image/vnd.microsoft.icon'', ''image/tiff'',
      ''image/avif'']"

definition SUPPORTED_EXTENSIONS :: "string list" where
  "SUPPORTED_EXTENSIONS =
     [''png'', ''jpg'', ''jpeg'', ''gif'', ''webp'', ''svg'', ''ico'', ''tiff'', ''avif'']"

text \<open>The own properties of the object literal \<^verbatim>\<open>MIME_TO_EXT\<close>.\<close>

definition MIME_TO_EXT :: "(string \<times> string) list" where
  "MIME_TO_EXT =
     [(''image/jpeg'', ''jpg''), (''image/jpg'', ''jpg''), (''image/png'', ''png''),
      (''image/webp'', ''webp''), (''image/gif'', ''gif''), (''image/svg+xml'', ''svg''),
      (''image/x-icon'', ''ico''), (''image/vnd.microsoft.icon'', ''ico''),
      (''image/tiff'', ''tiff''), (''image/avif'', ''avif'')]"

definition doesSupportFileType :: "File \<Rightarrow> bool" where
  "doesSupportFileType file =
     (if type' file \<in> set SUPPORTED_INPUT_FORMATS then True
      else or_else (name_ext file) '''' \<in> set SUPPORTED_EXTENSIONS)"

text \<open>
  The callback of \<^verbatim>\<open>Array.from(fileList).filter\<close>, run over the files in order: it warns
  about an unsupported file and keeps a supported one.
\<close>

fun filter_files :: "File list \<Rightarrow> Browser \<Rightarrow> File list \<times> Browser" where
  "filter_files [] st = ([], st)"
| "filter_files (file # rest) st =
     (let isSupported = doesSupportFileType file;
          st1 = (if \<not> isSupported then console_warn ''[ImageConverter] Unsupported file type'' st
                 else st);
          (kept, st2) = filter_files rest st1
      in (if isSupported then file # kept else kept, st2))"

definition filterSupportedFiles :: "File list \<Rightarrow> Browser \<Rightarrow> File list \<times> Browser" where
  "filterSupportedFiles fileList st =
     (let st1 = console_log ''[ImageConverter] Processing file(s)'' st;
          (imageFiles, st2) = filter_files fileList st1;
          st3 = console_log ''[ImageConverter] supported image file(s) found'' st2
      in (imageFiles, st3))"

text \<open>\<^verbatim>\<open>Math.random().toString(36).substring(2, 11)\<close>\<close>

definition generateId :: "Platform \<Rightarrow> Browser \<Rightarrow> string \<times> Browser" where
  "generateId pf st =
     (take 9 (drop 2 (random_base36 pf (rolls st))), st\<lparr>rolls := Suc (rolls st)\<rparr>)"

definition getFileExtension :: "string \<Rightarrow> js_value" where
  "getFileExtension mimeType = js_or (get_property MIME_TO_EXT mimeType) (Str ''unknown'')"

definition createConvertedFileRecord ::
  "Platform \<Rightarrow> File \<Rightarrow> ImageFormat \<Rightarrow> Browser \<Rightarrow> ConvertedFile \<times> Browser" where
  "createConvertedFileRecord pf file targetFmt st =
     (let (ident, st1) = generateId pf st;
          (origUrl, st2) = createObjectURL pf st1;
          srcFormat =
            js_or (js_or (getFileExtension (type' file)) (of_optional (name_ext file)))
                  (Str ''unknown'');
          baseFilename = replace_ext (name file);
          fname = baseFilename @ ''.'' @ format_string targetFmt;
          st3 = console_log ''[ImageConverter] Creating file record'' st2
      in (\<lparr>id' = ident, originalFile = file, originalUrl = origUrl, convertedUrl = '''',
           filename = fname, isConverting = True, sourceFormat = srcFormat,
           targetFormat = targetFmt, originalSize = size' file, convertedSize = 0\<rparr>, st3))"

fun getFormatConfig :: "ImageFormat \<Rightarrow> string \<times> rat" where
  "getFormatConfig Png = (''image/png'', 1)"
| "getFormatConfig Webp = (''image/webp'', 9 / 10)"
| "getFormatConfig Jpg = (''image/jpeg'', 9 / 10)"
| "getFormatConfig Jpeg = (''image/jpeg'', 9 / 10)"

definition fillRect :: "nat \<Rightarrow> nat \<Rightarrow> nat \<Rightarrow> nat \<Rightarrow> HTMLCanvasElement \<Rightarrow> HTMLCanvasElement" where
  "fillRect x y w h canvas = canvas\<lparr>drawn := drawn canvas @ [FillRect (fillStyle canvas) x y w h]\<rparr>"

definition drawImage :: "HTMLImageElement \<Rightarrow> nat \<Rightarrow> nat \<Rightarrow> HTMLCanvasElement \<Rightarrow> HTMLCanvasElement" where
  "drawImage img x y canvas = canvas\<lparr>drawn := drawn canvas @ [DrawImage img x y]\<rparr>"

text \<open>\<^verbatim>\<open>document.createElement('canvas')\<close>: 300 by 150, black fill style, nothing drawn.\<close>

definition createElement_canvas :: HTMLCanvasElement where
  "createElement_canvas =
     \<lparr>canvas_width = 300, canvas_height = 150, fillStyle = ''#000000'', drawn = []\<rparr>"

definition setupCanvas :: "Platform \<Rightarrow> HTMLImageElement \<Rightarrow> ImageFormat \<Rightarrow> HTMLCanvasElement" where
  "setupCanvas pf img targetFmt =
     (let canvas = createElement_canvas;
          ctx = getContext2d pf;
          canvas = canvas\<lparr>canvas_width := img_width img\<rparr>;
          canvas = canvas\<lparr>canvas_height := img_height img\<rparr>
      in if ctx then
           (let canvas =
                  (if targetFmt = Jpg \<or> targetFmt = Jpeg then
                     fillRect 0 0 (canvas_width canvas) (canvas_height canvas)
                       (canvas\<lparr>fillStyle := ''#FFFFFF''\<rparr>)
                   else canvas)
            in drawImage img 0 0 canvas)
         else canvas)"

definition canvasToBlob :: "Platform \<Rightarrow> HTMLCanvasElement \<Rightarrow> string \<Rightarrow> rat \<Rightarrow> error + Blob" where
  "canvasToBlob pf canvas mimeType quality =
     (case toBlob pf canvas mimeType quality of
        Some blob \<Rightarrow> Inr blob
      | None \<Rightarrow> Inl (Error ''Failed to convert canvas to blob''))"

text \<open>
  Assigning \<^verbatim>\<open>img.src\<close> starts the decoding of the blob behind the URL; the platform then
  calls \<^verbatim>\<open>img.onload\<close> or \<^verbatim>\<open>img.onerror\<close>.
\<close>

definition set_src ::
  "Platform \<Rightarrow> File \<Rightarrow> Blob \<Rightarrow> string \<Rightarrow> Browser \<Rightarrow> (error + HTMLImageElement) \<times> Browser" where
  "set_src pf file blob u st =
     (case decode pf blob of
        Some (w, h) \<Rightarrow>
          (Inr \<lparr>img_src = u, img_width = w, img_height = h\<rparr>,
           console_log ''[ImageConverter] Image loaded successfully'' st)
      | None \<Rightarrow>
          (Inl (Error (''Failed to load image: '' @ name file)),
           console_error ''[ImageConverter] Image load error'' st))"

definition loadImage :: "Platform \<Rightarrow> File \<Rightarrow> Browser \<Rightarrow> (error + HTMLImageElement) \<times> Browser" where
  "loadImage pf file st =
     (if type' file = ''image/svg+xml'' then
        (let st1 = console_log (''[ImageConverter] Handling SVG file: '' @ name file) st
         in case readAsText pf file of
              Some svgString \<Rightarrow>
                (let blob = \<lparr>blob_bytes = map of_char svgString, blob_type = ''image/svg+xml''\<rparr>;
                     (u, st2) = createObjectURL pf st1
                 in set_src pf file blob u st2)
            | None \<Rightarrow>
                (Inl (Error (''Failed to read SVG file: '' @ name file)),
                 console_error ''[ImageConverter] Failed to read SVG file'' st1))
      else
        (let (u, st1) = createObjectURL pf st
         in set_src pf file \<lparr>blob_bytes = bytes file, blob_type = type' file\<rparr> u st1))"

record ConversionResult =
  url :: string
  size_r :: nat

text \<open>The body of the \<^verbatim>\<open>try\<close> block of \<^verbatim>\<open>convertImage\<close>.\<close>

definition convertImage_try ::
  "Platform \<Rightarrow> File \<Rightarrow> ImageFormat \<Rightarrow> Browser \<Rightarrow> (error + ConversionResult) \<times> Browser" where
  "convertImage_try pf file targetFmt st =
     (case loadImage pf file st of
        (Inl e, st1) \<Rightarrow> (Inl e, st1)
      | (Inr img, st1) \<Rightarrow>
          (let canvas = setupCanvas pf img targetFmt;
               (mimeType, quality) = getFormatConfig targetFmt
           in case canvasToBlob pf canvas mimeType quality of
                Inl e \<Rightarrow> (Inl e, st1)
              | Inr blob \<Rightarrow>
                  (let (u, st2) = createObjectURL pf st1;
                       st3 = console_log ''[ImageConverter] Conversion successful'' st2
                   in (Inr \<lparr>url = u, size_r = blob_size blob\<rparr>, st3))))"

definition convertImage ::
  "Platform \<Rightarrow> File \<Rightarrow> ImageFormat \<Rightarrow> Browser \<Rightarrow> (error + ConversionResult) \<times> Browser" where
  "convertImage pf file targetFmt st =
     (let st0 = console_log (''[ImageConverter] Starting conversion for '' @ name file) st
      in case convertImage_try pf file targetFmt st0 of
           (Inr res, st1) \<Rightarrow> (Inr res, st1)
         | (Inl e, st1) \<Rightarrow> (Inl e, console_error ''[ImageConverter] Conversion failed'' st1))"

text \<open>
  The body of the \<^verbatim>\<open>try\<close> block of \<^verbatim>\<open>downloadFile\<close>. The anchor that \<^verbatim>\<open>removeChild\<close> removes
  is the one that was appended last.
\<close>

definition removeChild :: "HTMLAnchorElement \<Rightarrow> HTMLAnchorElement list \<Rightarrow> HTMLAnchorElement list" where
  "removeChild link children = rev (remove1 link (rev children))"

definition downloadFile_try ::
  "Platform \<Rightarrow> ConvertedFile \<Rightarrow> Browser \<Rightarrow> (error + unit) \<times> Browser" where
  "downloadFile_try pf file st =
     (case fetch_blob pf (convertedUrl file) of
        Inl e \<Rightarrow> (Inl e, st)
      | Inr blob \<Rightarrow>
          (let link = \<lparr>href = '''', download = ''''\<rparr>;
               (u, st1) = createObjectURL pf st;
               link = link\<lparr>href := u\<rparr>;
               link = link\<lparr>download := filename file\<rparr>
           in case body st1 of
                None \<Rightarrow> (Inl (Error ''TypeError''), st1)
              | Some children \<Rightarrow>
                  (let st2 = st1\<lparr>body := Some (children @ [link])\<rparr>;
                       st3 = st2\<lparr>clicked := clicked st2 @ [link]\<rparr>;
                       st4 = st3\<lparr>body := Some (removeChild link (children @ [link]))\<rparr>;
                       st5 = console_log ''[ImageConverter] Download initiated successfully'' st4
                   in (Inr (), st5))))"

definition downloadFile ::
  "Platform \<Rightarrow> ConvertedFile \<Rightarrow> Browser \<Rightarrow> (error + unit) \<times> Browser" where
  "downloadFile pf file st =
     (let st0 = console_log ''[ImageConverter] Starting download'' st
      in case downloadFile_try pf file st0 of
           (Inr u, st1) \<Rightarrow> (Inr u, st1)
         | (Inl e, st1) \<Rightarrow> (Inr (), console_error ''[ImageConverter] Download failed'' st1))"

definition cleanupFile :: "ConvertedFile \<Rightarrow> Browser \<Rightarrow> Browser" where
  "cleanupFile file st =
     (let st0 = console_log ''[ImageConverter] Cleaning up file'' st;
          st1 = revokeObjectURL (originalUrl file) st0
      in if convertedUrl file \<noteq> [] then revokeObjectURL (convertedUrl file) st1 else st1)"

definition cleanupFiles :: "ConvertedFile list \<Rightarrow> Browser \<Rightarrow> Browser" where
  "cleanupFiles fs st =
     fold cleanupFile fs (console_log ''[ImageConverter] Cleaning up files'' st)"

section \<open>The component\<close>

text \<open>
  The state of \<^verbatim>\<open>ImageConverter.svelte\<close> is its list \<^verbatim>\<open>files\<close>, here paired with the browser.
  The two branches after \<^verbatim>\<open>await converter.convertImage\<close> in \<^verbatim>\<open>handleFiles\<close>:
\<close>

definition apply_success :: "string \<Rightarrow> ConversionResult \<Rightarrow> ConvertedFile list \<Rightarrow> ConvertedFile list" where
  "apply_success ident result files =
     map (\<lambda>f. if id' f = ident
              then f\<lparr>convertedUrl := url result, convertedSize := size_r result,
                     isConverting := False\<rparr>
              else f) files"

definition discard :: "string \<Rightarrow> ConvertedFile list \<Rightarrow> ConvertedFile list" where
  "discard ident files = filter (\<lambda>f. id' f \<noteq> ident) files"

text \<open>One turn of the loop of \<^verbatim>\<open>handleFiles\<close>, when nothing else runs while it awaits.\<close>

definition handleFile ::
  "Platform \<Rightarrow> ImageFormat \<Rightarrow> File \<Rightarrow> ConvertedFile list \<times> Browser \<Rightarrow> ConvertedFile list \<times> Browser" where
  "handleFile pf selectedFormat file s =
     (let (convertedFile, st1) = createConvertedFileRecord pf file selectedFormat (snd s);
          files = fst s @ [convertedFile]
      in case convertImage pf file selectedFormat st1 of
           (Inr result, st2) \<Rightarrow> (apply_success (id' convertedFile) result files, st2)
         | (Inl e, st2) \<Rightarrow> (discard (id' convertedFile) files, st2))"

text \<open>
  \<^verbatim>\<open>handleFiles\<close>; the clearing of the file input at its end, which touches neither the list
  nor anything above, is left out.
\<close>

definition handleFiles ::
  "Platform \<Rightarrow> ImageFormat \<Rightarrow> File list \<Rightarrow> ConvertedFile list \<times> Browser \<Rightarrow> ConvertedFile list \<times> Browser" where
  "handleFiles pf selectedFormat fileList s =
     (let (imageFiles, st1) = filterSupportedFiles fileList (snd s)
      in fold (handleFile pf selectedFormat) imageFiles (fst s, st1))"


definition clearAll :: "ConvertedFile list \<times> Browser \<Rightarrow> ConvertedFile list \<times> Browser" where
  "clearAll s = ([], cleanupFiles (fst s) (snd s))"


section \<open>The specification's words\<close>

text \<open>
  The extension of a file name as the specification speaks of it: what follows the last
  dot of the name. For a name without a dot this function returns the whole name, which
  is what \<^verbatim>\<open>name.split('.').pop()\<close> returns.
\<close>

definition after_last_dot :: "string \<Rightarrow> string" where
  "after_last_dot n = rev (takeWhile (\<lambda>c. c \<noteq> CHR ''.'') (rev n))"

text \<open>
  The base name: the name without its trailing extension, if it has one (a dot followed
  by at least one character); otherwise the whole name.
\<close>

definition strip_extension :: "string \<Rightarrow> string" where
  "strip_extension n =
     (if CHR ''.'' \<in> set n \<and> after_last_dot n \<noteq> []
      then take (length n - Suc (length (after_last_dot n))) n else n)"

section \<open>A browser to run the code in\<close>

text \<open>
  A platform that decodes PNG blobs only (as 800 by 600), encodes every canvas to three
  bytes, has a 2D context, cannot read files as text and rejects every fetch.
\<close>

definition example_platform :: Platform where
  "example_platform =
     \<lparr>uuid = (\<lambda>n. replicate (Suc n) (CHR ''u'')),
      random_base36 = (\<lambda>n. ''0.'' @ replicate n (CHR ''a'') @ ''k3x9q2m7tz4''),
      readAsText = (\<lambda>f. None),
      decode = (\<lambda>b. if blob_type b = ''image/png'' then Some (800, 600) else None),
      getContext2d = True,
      toBlob = (\<lambda>c m q. Some \<lparr>blob_bytes = [137, 80, 78], blob_type = m\<rparr>),
      fetch_blob = (\<lambda>u. Inl (Error ''Network error''))\<rparr>"

definition example_png :: File where
  "example_png = \<lparr>name = ''photo.png'', type' = ''image/png'', bytes = [137, 80]\<rparr>"


definition example_browser :: Browser where
  "example_browser =
     \<lparr>urls = [], minted = 0, rolls = 0, console = [], body = Some [], clicked = []\<rparr>"

text \<open>The component after \<^verbatim>\<open>photo.png\<close> was dropped on it with the target \<^verbatim>\<open>jpg\<close>.\<close>

definition example_state :: "ConvertedFile list \<times> Browser" where
  "example_state = handleFiles example_platform Jpg [example_png] ([], example_browser)"


section \<open>File names\<close>

lemma split_not_Nil: "split sep s \<noteq> []"
  by (induction s) (auto split: list.splits)

lemma split_no_sep: "sep \<notin> set s \<Longrightarrow> split sep s = [s]"
  by (induction s) auto

lemma split_tl_not_Nil: "sep \<in> set s \<Longrightarrow> tl (split sep s) \<noteq> []"
proof (induction s)
  case Nil
  then show ?case by simp
next
  case (Cons c cs)
  show ?case
  proof (cases "c = sep")
    case True
    then show ?thesis by (simp add: split_not_Nil)
  next
    case False
    with Cons show ?thesis by (cases "split sep cs") auto
  qed
qed

lemma last_split_Cons: "sep \<in> set cs \<Longrightarrow> last (split sep (c # cs)) = last (split sep cs)"
  using split_tl_not_Nil[of sep cs] split_not_Nil[of sep cs]
  by (cases "split sep cs") auto

text \<open>The last piece of \<^verbatim>\<open>s.split(sep)\<close> is what follows the last separator.\<close>

lemma last_split: "last (split sep s) = rev (takeWhile (\<lambda>c. c \<noteq> sep) (rev s))"
proof (induction s)
  case Nil
  then show ?case by simp
next
  case (Cons c cs)
  show ?case
  proof (cases "sep \<in> set cs")
    case True
    then have "takeWhile (\<lambda>c. c \<noteq> sep) (rev cs @ [c]) = takeWhile (\<lambda>c. c \<noteq> sep) (rev cs)"
      by (intro takeWhile_append1[of sep]) auto
    then show ?thesis using True Cons by (simp add: last_split_Cons del: split.simps)
  next
    case False
    then have "takeWhile (\<lambda>c. c \<noteq> sep) (rev cs @ [c]) = rev cs @ takeWhile (\<lambda>c. c \<noteq> sep) [c]"
      by (intro takeWhile_append2) auto
    then show ?thesis using False by (auto simp: split_no_sep)
  qed
qed

lemma name_ext_eq: "name_ext file = Some (toLowerCase (after_last_dot (name file)))"
  by (simp add: name_ext_def pop_def split_not_Nil last_split after_last_dot_def)

lemma after_last_dot_no_dot: "CHR ''.'' \<notin> set n \<Longrightarrow> after_last_dot n = n"
proof -
  assume "CHR ''.'' \<notin> set n"
  then have "takeWhile (\<lambda>c. c \<noteq> CHR ''.'') (rev n) = rev n"
    by (auto simp: takeWhile_eq_all_conv)
  then show ?thesis unfolding after_last_dot_def by (simp only: rev_rev_ident)
qed

lemma after_last_dot_append:
  "CHR ''.'' \<notin> set e \<Longrightarrow> after_last_dot (b @ CHR ''.'' # e) = e"
proof -
  assume "CHR ''.'' \<notin> set e"
  then have "takeWhile (\<lambda>c. c \<noteq> CHR ''.'') (rev e @ CHR ''.'' # rev b) = rev e"
    by (subst takeWhile_append2) auto
  then show ?thesis by (simp add: after_last_dot_def)
qed

lemma replace_ext_no_dot: "CHR ''.'' \<notin> set n \<Longrightarrow> replace_ext n = n"
  by (induction n) auto

lemma replace_ext_append:
  "CHR ''.'' \<notin> set e \<Longrightarrow> e \<noteq> [] \<Longrightarrow> replace_ext (b @ CHR ''.'' # e) = b"
  by (induction b) auto

lemma replace_ext_trailing_dot: "replace_ext (b @ ''.'') = b @ ''.''"
  by (induction b) auto

lemma dot_decompose:
  "CHR ''.'' \<in> set n \<Longrightarrow> \<exists>b. n = b @ CHR ''.'' # after_last_dot n"
proof -
  assume "CHR ''.'' \<in> set n"
  then have "CHR ''.'' \<in> set (rev n)" by simp
  then obtain ys zs where "rev n = ys @ CHR ''.'' # zs" and "CHR ''.'' \<notin> set ys"
    by (meson split_list_first)
  then have "n = rev zs @ CHR ''.'' # rev ys" and "CHR ''.'' \<notin> set (rev ys)"
    by (simp_all add: rev_swap[symmetric] rev_eq_append_conv)
  then show ?thesis using after_last_dot_append[of "rev ys" "rev zs"] by auto
qed

text \<open>The regular expression of \<^verbatim>\<open>createConvertedFileRecord\<close> strips the trailing extension.\<close>

lemma replace_ext_strip: "replace_ext n = strip_extension n"
proof (cases "CHR ''.'' \<in> set n")
  case False
  then show ?thesis by (simp add: strip_extension_def replace_ext_no_dot)
next
  case True
  define e where "e = after_last_dot n"
  from True obtain b where b: "n = b @ CHR ''.'' # e"
    unfolding e_def using dot_decompose by blast
  have nd: "CHR ''.'' \<notin> set e"
    unfolding e_def after_last_dot_def
    using set_takeWhileD[of "CHR ''.''" "\<lambda>c. c \<noteq> CHR ''.''" "rev n"]
    by auto
  show ?thesis
  proof (cases "e = []")
    case True
    with b have "replace_ext n = n" using replace_ext_trailing_dot[of b] by simp
    then show ?thesis using True by (simp add: strip_extension_def e_def)
  next
    case False
    have "replace_ext n = b" using b nd False replace_ext_append[of e b] by simp
    moreover have "take (length n - Suc (length e)) n = b" using b by simp
    ultimately show ?thesis using False \<open>CHR ''.'' \<in> set n\<close>
      by (simp add: strip_extension_def e_def)
  qed
qed

lemma strip_extension_append:
  "CHR ''.'' \<notin> set e \<Longrightarrow> e \<noteq> [] \<Longrightarrow> strip_extension (b @ CHR ''.'' # e) = b"
  using replace_ext_append[of e b] by (simp add: replace_ext_strip)

section \<open>Admission of files\<close>

text \<open>
  C2, as stated, at a file named \<^verbatim>\<open>png\<close> with an empty media type: the media type is not
  supported and the name has no dot, hence no extension, and yet \<^verbatim>\<open>doesSupportFileType\<close>
  returns true, because \<^verbatim>\<open>'png'.split('.').pop()\<close> is the whole name.
\<close>

theorem doesSupportFileType_dotless_counterexample:
  "type' \<lparr>name = ''png'', type' = '''', bytes = []\<rparr> \<notin> set SUPPORTED_INPUT_FORMATS
   \<and> CHR ''.'' \<notin> set (name \<lparr>name = ''png'', type' = '''', bytes = []\<rparr>)
   \<and> doesSupportFileType \<lparr>name = ''png'', type' = '''', bytes = []\<rparr>"
  by (simp add: doesSupportFileType_def SUPPORTED_INPUT_FORMATS_def SUPPORTED_EXTENSIONS_def
      name_ext_def pop_def or_else_def toLowerCase_def toLowerCase_char_def)

text \<open>
  C2, amended: \<^verbatim>\<open>doesSupportFileType\<close> returns true if the file's media type is in the
  media-type allow-list; otherwise it returns true exactly when what follows the last dot
  of the file's name (the whole name when it has no dot), in lower case, is in the
  extension allow-list.
\<close>

theorem doesSupportFileType_cases:
  "doesSupportFileType file =
     (if type' file \<in> set SUPPORTED_INPUT_FORMATS then True
      else toLowerCase (after_last_dot (name file)) \<in> set SUPPORTED_EXTENSIONS)"
  by (auto simp: doesSupportFileType_def name_ext_eq or_else_def SUPPORTED_EXTENSIONS_def)

lemma fst_filter_files: "fst (filter_files fs st) = filter doesSupportFileType fs"
  by (induction fs arbitrary: st) (simp_all add: Let_def split_def)

lemma fst_filterSupportedFiles: "fst (filterSupportedFiles fs st) = filter doesSupportFileType fs"
  by (simp add: filterSupportedFiles_def Let_def split_def fst_filter_files)

text \<open>Filtering writes to the console and to nothing else.\<close>

lemma snd_filter_files: "(snd (filter_files fs st))\<lparr>console := console st\<rparr> = st"
proof (induction fs arbitrary: st)
  case Nil
  show ?case by simp
next
  case (Cons f fs)
  show ?case
  proof (cases "doesSupportFileType f")
    case True
    then show ?thesis using Cons[of st] by (simp add: Let_def split_def)
  next
    case False
    let ?st1 = "console_warn ''[ImageConverter] Unsupported file type'' st"
    have "(snd (filter_files fs ?st1))\<lparr>console := console st\<rparr> =
            ((snd (filter_files fs ?st1))\<lparr>console := console ?st1\<rparr>)\<lparr>console := console st\<rparr>"
      by simp
    also have "\<dots> = ?st1\<lparr>console := console st\<rparr>" by (simp only: Cons)
    also have "\<dots> = st" by (simp add: console_warn_def)
    finally show ?thesis using False by (simp add: Let_def split_def)
  qed
qed

lemma snd_filterSupportedFiles:
  "(snd (filterSupportedFiles fs st))\<lparr>console := console st\<rparr> = st"
proof -
  let ?st1 = "console_log ''[ImageConverter] Processing file(s)'' st"
  have "(snd (filterSupportedFiles fs st))\<lparr>console := console st\<rparr> =
          (snd (filter_files fs ?st1))\<lparr>console := console st\<rparr>"
    by (simp add: filterSupportedFiles_def Let_def split_def console_log_def)
  also have "\<dots> = ((snd (filter_files fs ?st1))\<lparr>console := console ?st1\<rparr>)\<lparr>console := console st\<rparr>"
    by simp
  also have "\<dots> = ?st1\<lparr>console := console st\<rparr>" by (simp only: snd_filter_files)
  also have "\<dots> = st" by (simp add: console_log_def)
  finally show ?thesis .
qed

text \<open>
  C6: \<^verbatim>\<open>filterSupportedFiles\<close> returns the files of its input for which
  \<^verbatim>\<open>doesSupportFileType\<close> holds, in their order, a subsequence of the input, and applying
  it to its own result (in any state of the browser) returns that result. The code copies
  its input with \<^verbatim>\<open>Array.from\<close> and only reads it, so the input is a value here; what the
  function changes is the console, and nothing else.
\<close>

theorem filterSupportedFiles_filter:
  "fst (filterSupportedFiles fileList st) = filter doesSupportFileType fileList
   \<and> subseq (fst (filterSupportedFiles fileList st)) fileList
   \<and> fst (filterSupportedFiles (fst (filterSupportedFiles fileList st)) st') =
       fst (filterSupportedFiles fileList st)
   \<and> (snd (filterSupportedFiles fileList st))\<lparr>console := console st\<rparr> = st"
  by (simp add: fst_filterSupportedFiles snd_filterSupportedFiles)

section \<open>Tracking records\<close>

text \<open>
  For a media type that is neither a key of \<^verbatim>\<open>MIME_TO_EXT\<close> nor the name of an inherited
  property, \<^verbatim>\<open>getFileExtension\<close> returns the non-empty string \<^verbatim>\<open>unknown\<close>, the \<^verbatim>\<open>||\<close> chain
  stops there, and the name of the file is not looked at.
\<close>

lemma getFileExtension_unknown:
  "map_of MIME_TO_EXT t = None \<Longrightarrow> map_of OBJECT_PROTOTYPE t = None \<Longrightarrow>
   getFileExtension t = Str ''unknown''"
  by (simp add: getFileExtension_def get_property_def js_or_def)

lemma sourceFormat_unknown:
  "map_of MIME_TO_EXT (type' file) = None \<Longrightarrow> map_of OBJECT_PROTOTYPE (type' file) = None \<Longrightarrow>
   sourceFormat (fst (createConvertedFileRecord pf file fmt st)) = Str ''unknown''"
  by (simp add: createConvertedFileRecord_def getFileExtension_unknown js_or_def Let_def split_def)

lemma sourceFormat_unknown_empty_type:
  "sourceFormat (fst (createConvertedFileRecord example_platform
       \<lparr>name = ''test.jpg'', type' = '''', bytes = []\<rparr> Jpg example_browser)) = Str ''unknown''"
  by (rule sourceFormat_unknown) (simp_all add: MIME_TO_EXT_def OBJECT_PROTOTYPE_def)

text \<open>
  C4 at a file \<^verbatim>\<open>test.jpg\<close> whose media type is \<^verbatim>\<open>constructor\<close>: the media type is not a key
  of \<^verbatim>\<open>MIME_TO_EXT\<close>, but \<^verbatim>\<open>MIME_TO_EXT['constructor']\<close> is the inherited function \<^verbatim>\<open>Object\<close>,
  which is truthy, so the source format of the record is that function and not the string
  \<^verbatim>\<open>unknown\<close>.
\<close>

theorem createConvertedFileRecord_sourceFormat_inherited:
  "map_of MIME_TO_EXT (type' \<lparr>name = ''test.jpg'', type' = ''constructor'', bytes = []\<rparr>) = None
   \<and> sourceFormat (fst (createConvertedFileRecord example_platform
         \<lparr>name = ''test.jpg'', type' = ''constructor'', bytes = []\<rparr> Jpg example_browser))
       = Fun ''Object''
   \<and> sourceFormat (fst (createConvertedFileRecord example_platform
         \<lparr>name = ''test.jpg'', type' = ''constructor'', bytes = []\<rparr> Jpg example_browser))
       \<noteq> Str ''unknown''"
  by (simp add: createConvertedFileRecord_def getFileExtension_def get_property_def js_or_def
      MIME_TO_EXT_def OBJECT_PROTOTYPE_def Let_def split_def)

text \<open>
  C5, as stated, at \<^verbatim>\<open>photo.png\<close> and the target format \<^verbatim>\<open>jpeg\<close>: the file name of the
  record is \<^verbatim>\<open>photo.jpeg\<close>, which does not end in \<^verbatim>\<open>.jpg\<close>.
\<close>

theorem createConvertedFileRecord_jpeg_counterexample:
  "filename (fst (createConvertedFileRecord example_platform
       \<lparr>name = ''photo.png'', type' = ''image/png'', bytes = []\<rparr> Jpeg example_browser))
     = ''photo.jpeg''"
  by (simp add: createConvertedFileRecord_def Let_def split_def)

text \<open>
  C5, amended: the file name of the record is the base name of the original (its trailing
  extension stripped, if any), a dot, and the target format itself: \<^verbatim>\<open>png\<close>, \<^verbatim>\<open>jpg\<close>,
  \<^verbatim>\<open>jpeg\<close> or \<^verbatim>\<open>webp\<close>.
\<close>

theorem createConvertedFileRecord_filename:
  "filename (fst (createConvertedFileRecord pf file fmt st)) =
     strip_extension (name file) @ ''.'' @
       (case fmt of Png \<Rightarrow> ''png'' | Jpg \<Rightarrow> ''jpg'' | Jpeg \<Rightarrow> ''jpeg'' | Webp \<Rightarrow> ''webp'')"
  by (cases fmt) (simp_all add: createConvertedFileRecord_def Let_def split_def replace_ext_strip)

section \<open>The canvas\<close>

text \<open>
  C3, as stated, in a browser where \<^verbatim>\<open>canvas.getContext('2d')\<close> returns \<^verbatim>\<open>null\<close>: for the
  target \<^verbatim>\<open>jpg\<close> nothing is filled and nothing is drawn.
\<close>

theorem setupCanvas_no_context_counterexample:
  "drawn (setupCanvas (example_platform\<lparr>getContext2d := False\<rparr>)
            \<lparr>img_src = ''blob:u'', img_width = 800, img_height = 600\<rparr> Jpg) = []"
  by (simp add: setupCanvas_def createElement_canvas_def)

text \<open>
  C3, amended: the canvas has the width and height of the image. When the 2D context is
  available, the whole canvas is first filled with white exactly when the target is
  \<^verbatim>\<open>jpg\<close> or \<^verbatim>\<open>jpeg\<close>, and the image is then drawn at the origin; when it is not available,
  nothing is filled or drawn.
\<close>

theorem setupCanvas_drawn:
  "canvas_width (setupCanvas pf img fmt) = img_width img
   \<and> canvas_height (setupCanvas pf img fmt) = img_height img
   \<and> drawn (setupCanvas pf img fmt) =
       (if getContext2d pf then
          (if fmt = Jpg \<or> fmt = Jpeg
           then [FillRect ''#FFFFFF'' 0 0 (img_width img) (img_height img)] else [])
          @ [DrawImage img 0 0]
        else [])"
  by (simp add: setupCanvas_def createElement_canvas_def fillRect_def drawImage_def Let_def)

section \<open>Conversion\<close>







lemma example_convert:
  "convertImage example_platform example_png Jpg example_browser =
    (Inr \<lparr>url = ''blob:uu'', size_r = 3\<rparr>,
     \<lparr>urls = [''blob:u'', ''blob:uu''], minted = 2, rolls = 0,
      console = [ConsoleLog ''[ImageConverter] Starting conversion for photo.png'',
                 ConsoleLog ''[ImageConverter] Image loaded successfully'',
                 ConsoleLog ''[ImageConverter] Conversion successful''],
      body = Some [], clicked = []\<rparr>)"
  by (simp add: convertImage_def convertImage_try_def loadImage_def set_src_def canvasToBlob_def
      createObjectURL_def console_log_def example_platform_def example_browser_def example_png_def
      blob_size_def Let_def)

lemma example_state_eval:
  "example_state =
     ([\<lparr>id' = ''k3x9q2m7t'', originalFile = example_png, originalUrl = ''blob:u'',
        convertedUrl = ''blob:uuu'', filename = ''photo.jpg'', isConverting = False,
        sourceFormat = Str ''png'', targetFormat = Jpg, originalSize = 2, convertedSize = 3\<rparr>],
      \<lparr>urls = [''blob:u'', ''blob:uu'', ''blob:uuu''], minted = 3, rolls = 1,
       console =
         [ConsoleLog ''[ImageConverter] Processing file(s)'',
          ConsoleLog ''[ImageConverter] supported image file(s) found'',
          ConsoleLog ''[ImageConverter] Creating file record'',
          ConsoleLog ''[ImageConverter] Starting conversion for photo.png'',
          ConsoleLog ''[ImageConverter] Image loaded successfully'',
          ConsoleLog ''[ImageConverter] Conversion successful''],
       body = Some [], clicked = []\<rparr>)"
  by (simp add: example_state_def handleFiles_def filterSupportedFiles_def handleFile_def
      doesSupportFileType_def SUPPORTED_INPUT_FORMATS_def example_png_def
      createConvertedFileRecord_def generateId_def getFileExtension_def get_property_def
      MIME_TO_EXT_def or_else_def js_or_def size'_def apply_success_def
      convertImage_def convertImage_try_def loadImage_def set_src_def canvasToBlob_def
      createObjectURL_def console_log_def example_platform_def example_browser_def blob_size_def
      Let_def)




text \<open>
  After \<^verbatim>\<open>clearAll\<close> the URLs of the records are revoked: \<^verbatim>\<open>cleanupFile\<close> revokes the
  original URL and the converted URL of each record.
\<close>

lemma example_clearAll_urls: "urls (snd (clearAll example_state)) = [''blob:uu'']"
  by (simp add: example_state_eval clearAll_def cleanupFiles_def cleanupFile_def
      revokeObjectURL_def console_log_def Let_def)

text \<open>
  C9 at the conversion of \<^verbatim>\<open>photo.png\<close> to \<^verbatim>\<open>jpg\<close> in a browser without object URLs: the
  call succeeds and leaves two object URLs allocated, the result \<^verbatim>\<open>blob:uu\<close> and, before
  it, the URL \<^verbatim>\<open>blob:u\<close> that \<^verbatim>\<open>loadImage\<close> created for \<^verbatim>\<open>img.src\<close>, which is neither returned
  nor revoked. In the component, where the record holds \<^verbatim>\<open>blob:u\<close> and \<^verbatim>\<open>blob:uuu\<close> and the
  URL of \<^verbatim>\<open>loadImage\<close> is \<^verbatim>\<open>blob:uu\<close>, that URL is still allocated after \<^verbatim>\<open>clearAll\<close> has
  cleaned up every record.
\<close>

theorem convertImage_leaves_decode_url:
  "fst (convertImage example_platform example_png Jpg example_browser)
     = Inr \<lparr>url = ''blob:uu'', size_r = 3\<rparr>
   \<and> urls example_browser = []
   \<and> urls (snd (convertImage example_platform example_png Jpg example_browser))
     = [''blob:u'', ''blob:uu'']
   \<and> map originalUrl (fst example_state) = [''blob:u'']
   \<and> map convertedUrl (fst example_state) = [''blob:uuu'']
   \<and> urls (snd example_state) = [''blob:u'', ''blob:uu'', ''blob:uuu'']
   \<and> urls (snd (clearAll example_state)) = [''blob:uu'']"
  by (simp add: example_convert example_clearAll_urls) (simp add: example_browser_def example_state_eval)

section \<open>The list of records\<close>
















section \<open>Download\<close>

lemma removeChild_last: "removeChild link (children @ [link]) = children"
  by (simp add: removeChild_def)

text \<open>
  C8: \<^verbatim>\<open>downloadFile\<close> always resolves; when the body of its \<^verbatim>\<open>try\<close> block throws (the fetch
  or the reading of the blob rejects, or the anchor cannot be appended), the last thing it
  does is to log the error \<^verbatim>\<open>Download failed\<close>.
\<close>

theorem downloadFile_never_throws:
  "fst (downloadFile pf file st) = Inr ()
   \<and> (isl (fst (downloadFile_try pf file (console_log ''[ImageConverter] Starting download'' st)))
        \<longrightarrow> last (console (snd (downloadFile pf file st)))
              = ConsoleError ''[ImageConverter] Download failed'')"
  by (auto simp: downloadFile_def console_error_def Let_def split: prod.splits sum.splits)

text \<open>C8 on the example platform, where every fetch is rejected with a network error.\<close>

theorem downloadFile_never_throws_witness:
  "isl (fst (downloadFile_try example_platform (hd (fst example_state))
         (console_log ''[ImageConverter] Starting download'' (snd example_state))))
   \<and> fst (downloadFile example_platform (hd (fst example_state)) (snd example_state)) = Inr ()
   \<and> last (console (snd (downloadFile example_platform (hd (fst example_state)) (snd example_state))))
       = ConsoleError ''[ImageConverter] Download failed''"
proof -
  have h: "isl (fst (downloadFile_try example_platform (hd (fst example_state))
         (console_log ''[ImageConverter] Starting download'' (snd example_state))))"
    by (simp add: downloadFile_try_def example_platform_def)
  from downloadFile_never_throws[of example_platform "hd (fst example_state)" "snd example_state"] h
  show ?thesis by simp
qed

text \<open>
  C10: when the converted bytes are fetched, \<^verbatim>\<open>downloadFile\<close> leaves exactly one more object
  URL allocated than before, the one it made for the anchor, and revokes nothing; the
  children of the body are as before (the anchor is appended and removed), and if there is
  a body the anchor was clicked with that URL and the record's file name.
\<close>

theorem downloadFile_leaves_handle:
  "fetch_blob pf (convertedUrl file) = Inr blob \<Longrightarrow>
     urls (snd (downloadFile pf file st)) = urls st @ [''blob:'' @ uuid pf (minted st)]
     \<and> body (snd (downloadFile pf file st)) = body st
     \<and> clicked (snd (downloadFile pf file st)) =
         (case body st of
            None \<Rightarrow> clicked st
          | Some children \<Rightarrow>
              clicked st @ [\<lparr>href = ''blob:'' @ uuid pf (minted st), download = filename file\<rparr>])"
  by (auto simp: downloadFile_def downloadFile_try_def createObjectURL_def console_log_def
      console_error_def removeChild_last Let_def split: option.splits)

text \<open>C10 for the record of \<^verbatim>\<open>photo.png\<close>, on a platform whose fetch succeeds.\<close>

theorem downloadFile_leaves_handle_witness:
  "fetch_blob (example_platform\<lparr>fetch_blob := \<lambda>u. Inr \<lparr>blob_bytes = [137, 80, 78], blob_type = ''image/jpeg''\<rparr>\<rparr>)
       (convertedUrl (hd (fst example_state)))
     = Inr \<lparr>blob_bytes = [137, 80, 78], blob_type = ''image/jpeg''\<rparr>
   \<and> urls (snd example_state) = [''blob:u'', ''blob:uu'', ''blob:uuu'']
   \<and> urls (snd (downloadFile
         (example_platform\<lparr>fetch_blob := \<lambda>u. Inr \<lparr>blob_bytes = [137, 80, 78], blob_type = ''image/jpeg''\<rparr>\<rparr>)
         (hd (fst example_state)) (snd example_state)))
     = [''blob:u'', ''blob:uu'', ''blob:uuu'', ''blob:uuuu'']
   \<and> body (snd (downloadFile
         (example_platform\<lparr>fetch_blob := \<lambda>u. Inr \<lparr>blob_bytes = [137, 80, 78], blob_type = ''image/jpeg''\<rparr>\<rparr>)
         (hd (fst example_state)) (snd example_state))) = Some []
   \<and> clicked (snd (downloadFile
         (example_platform\<lparr>fetch_blob := \<lambda>u. Inr \<lparr>blob_bytes = [137, 80, 78], blob_type = ''image/jpeg''\<rparr>\<rparr>)
         (hd (fst example_state)) (snd example_state)))
     = [\<lparr>href = ''blob:uuuu'', download = ''photo.jpg''\<rparr>]"
proof -
  let ?pf = "example_platform\<lparr>fetch_blob := \<lambda>u. Inr \<lparr>blob_bytes = [137, 80, 78], blob_type = ''image/jpeg''\<rparr>\<rparr>"
  have h: "fetch_blob ?pf (convertedUrl (hd (fst example_state)))
             = Inr \<lparr>blob_bytes = [137, 80, 78], blob_type = ''image/jpeg''\<rparr>"
    by simp
  from downloadFile_leaves_handle[OF h, of "snd example_state"] h show ?thesis
    by (simp add: example_state_eval example_platform_def eval_nat_numeral)
qed

end
